theory Spec2Isabelle
  imports Complex_Main "HOL-Library.Word"
begin

section \<open>Numeric conventions\<close>

text \<open>
  The C++ sources compute with \<open>float\<close> and \<open>double\<close>. This development reads them as
  mathematical reals: rounding error, overflow to infinity and NaN are outside the model.
  Integers of the program (\<open>int\<close>, the integer fields of messages) are unbounded
  \<open>int\<close>; the fixed-width fields of the modem messages are words.

  The implicit C++ conversion from a floating value to an integer discards the
  fractional part (truncation toward zero); a value outside the range of the integer
  type, where the conversion is undefined in C++, is outside the model as well.
\<close>

definition cpp_trunc :: "real \<Rightarrow> int" where
  "cpp_trunc x = (if 0 \<le> x then \<lfloor>x\<rfloor> else \<lceil>x\<rceil>)"

section \<open>The PID axis controller\<close>

text \<open>
  The nodes include \<open>pid.h\<close> / \<open>pid.cpp\<close> and own objects of class \<open>PID\<close>, calling
  \<open>calibrate\<close> once in the constructor and \<open>compute\<close> on every running cycle. The class
  itself is not among the source files, so the controller below follows the written
  specification of the axis controller (data model and the six steps of \<open>compute\<close>).
\<close>

datatype error = ConfigurationError

text \<open>
  Modelled from the spec: the attributes of class \<open>PID\<close> (file \<open>pid.h\<close> is missing):
  gains, integer output bounds, cycle period, integer bias and the running state
  (integral accumulator, previous error, previous output), all zero at creation.
\<close>

record PID =
  kp :: real
  ki :: real
  kd :: real
  min_output :: int
  max_output :: int
  period :: real
  bias :: int
  integral :: real
  previous_error :: real
  previous_output :: real

text \<open>
  Modelled from the spec: a controller as it is created, before calibration, with
  zero gains, bounds, period, bias and running state.
\<close>

definition PID_new :: PID where
  "PID_new = \<lparr>kp = 0, ki = 0, kd = 0, min_output = 0, max_output = 0, period = 0,
     bias = 0, integral = 0, previous_error = 0, previous_output = 0\<rparr>"

text \<open>
  Modelled from the spec: \<open>PID::calibrate\<close> (file \<open>pid.cpp\<close> is missing). It sets every
  tunable parameter and the period and resets the running state to zero. A non-positive
  period or \<open>min_output > max_output\<close> is a configuration error, rejected here; the
  rejection is an exception of the C++ call, modelled as the left summand.
\<close>

definition calibrate ::
  "PID \<Rightarrow> real \<Rightarrow> real \<Rightarrow> real \<Rightarrow> int \<Rightarrow> int \<Rightarrow> real \<Rightarrow> int \<Rightarrow> error + PID" where
  "calibrate self p i d mn mx per b =
     (if per \<le> 0 \<or> mx < mn then Inl ConfigurationError
      else Inr (self\<lparr>kp := p, ki := i, kd := d, min_output := mn, max_output := mx,
                     period := per, bias := b,
                     integral := 0, previous_error := 0, previous_output := 0\<rparr>))"

text \<open>
  Modelled from the spec: the rounding policy of the final output, toward the nearest
  integer with ties away from zero.
\<close>

definition round_half_away :: "real \<Rightarrow> int" where
  "round_half_away x = (if 0 \<le> x then \<lfloor>x + 1 / 2\<rfloor> else \<lceil>x - 1 / 2\<rceil>)"

text \<open>
  Modelled from the spec: the saturation of the raw output to the interval between
  the minimum and the maximum output.
\<close>

definition clamp :: "real \<Rightarrow> real \<Rightarrow> real \<Rightarrow> real" where
  "clamp lo hi x = (if hi < x then hi else if x < lo then lo else x)"

text \<open>
  Modelled from the spec: \<open>PID::compute\<close> (file \<open>pid.cpp\<close> is missing), step by step:
  error; proportional term; integral accumulation with anti-windup (the accumulation
  of this cycle is dropped when the unclamped output leaves the bounds and the
  accumulation moved the integral term in the direction of the excess); derivative
  term over the stored previous error; raw output with bias; clamping to the bounds
  and rounding. The result is the output and the updated controller.
\<close>

definition compute :: "PID \<Rightarrow> real \<Rightarrow> real \<Rightarrow> int \<times> PID" where
  "compute self desired actual =
     (let err = desired - actual;
          P = kp self * err;
          D = kd self * (err - previous_error self) / period self;
          accumulated = integral self + err * period self;
          unclamped = P + ki self * accumulated + D + real_of_int (bias self);
          integral_sum =
            (if (real_of_int (max_output self) < unclamped
                   \<and> ki self * integral self < ki self * accumulated)
                \<or> (unclamped < real_of_int (min_output self)
                   \<and> ki self * accumulated < ki self * integral self)
             then integral self else accumulated);
          I = ki self * integral_sum;
          raw = P + I + D + real_of_int (bias self);
          output = round_half_away
                     (clamp (real_of_int (min_output self)) (real_of_int (max_output self)) raw)
      in (output,
          self\<lparr>integral := integral_sum, previous_error := err,
                previous_output := real_of_int output\<rparr>))"

text \<open>The controller after a sequence of \<open>compute\<close> calls, one per (desired, actual) pair.\<close>

fun compute_all :: "PID \<Rightarrow> (real \<times> real) list \<Rightarrow> PID" where
  "compute_all self [] = self"
| "compute_all self ((desired, actual) # rest) =
     compute_all (snd (compute self desired actual)) rest"

section \<open>Messages\<close>

text \<open>
  The fields of \<open>ModemRec.msg\<close> that a node reads: the command identification code
  \<open>msg_id\<close> (\<open>uint8\<close>; \<open>0x10\<close> is a status report) and the local yaw in tenths of a
  degree (\<open>int16\<close>). No other field of the message is read anywhere.
\<close>

record ModemRec =
  msg_id :: "8 word"
  attitude_yaw :: "16 word"

text \<open>The fields of \<open>ModemStatus.msg\<close> around the local attitude.\<close>

record ModemStatus =
  includes_local_attitude :: bool
  attitude_yaw :: "16 word"
  attitude_pitch :: "16 word"
  attitude_roll :: "16 word"

text \<open>
  Modelled from the spec: the command message \<open>frost_interfaces/msg/UCommand\<close> (its
  declaration is missing): the time stamp of the header, three fin positions and one
  thruster level, all integers. A freshly constructed message is zero throughout.
\<close>

record UCommand =
  stamp :: nat
  fin :: "int list"
  thruster :: int

definition UCommand_new :: UCommand where
  "UCommand_new = \<lparr>stamp = 0, fin = [0, 0, 0], thruster = 0\<rparr>"

text \<open>
  What the executor delivers to a node, one callback at a time: a message on one of the
  topics, or the expiry of the wall timer together with the clock reading that
  \<open>this->now()\<close> returns in the callback. A node never sees a topic it has not
  subscribed to.
\<close>

datatype event =
    Init
  | DesiredDepth real
  | DesiredHeading real
  | DesiredSpeed real
  | DepthData real
  | ModemRecMsg ModemRec
  | ModemStatusMsg ModemStatus
  | TimerTick nat

text \<open>Whether an event is an expiry of the timer.\<close>

fun is_tick :: "event \<Rightarrow> bool" where
  "is_tick (TimerTick now) = True"
| "is_tick e = False"

section \<open>The node \<open>pid_control\<close> (class \<open>PIDControl\<close>)\<close>

text \<open>
  The declared parameters of the node, with the types of their defaults. (In the source
  the first \<open>declare_parameter\<close> call lacks its terminating semicolon; the statements
  are read here as they are meant.)
\<close>

record PIDControl_parameters =
  trim_ratio :: real
  pid_timer_period :: int
  depth_kp :: real
  depth_ki :: real
  depth_kd :: real
  depth_min_output :: int
  depth_max_output :: int
  depth_bias :: int
  heading_kp :: real
  heading_ki :: real
  heading_kd :: real
  heading_min_output :: int
  heading_max_output :: int
  heading_bias :: int
  speed_kp :: real
  speed_ki :: real
  speed_kd :: real
  speed_min_output :: int
  speed_max_output :: int
  speed_bias :: int
  top_fin_offset :: real
  right_fin_offset :: real
  left_fin_offset :: real

definition PIDControl_default_parameters :: PIDControl_parameters where
  "PIDControl_default_parameters =
     \<lparr>trim_ratio = 0, pid_timer_period = 80,
      PIDControl_parameters.depth_kp = 0, PIDControl_parameters.depth_ki = 0,
      PIDControl_parameters.depth_kd = 0, PIDControl_parameters.depth_min_output = 0,
      PIDControl_parameters.depth_max_output = 0, PIDControl_parameters.depth_bias = 0,
      PIDControl_parameters.heading_kp = 0, PIDControl_parameters.heading_ki = 0,
      PIDControl_parameters.heading_kd = 0, PIDControl_parameters.heading_min_output = 0,
      PIDControl_parameters.heading_max_output = 0, PIDControl_parameters.heading_bias = 0,
      speed_kp = 0, speed_ki = 0, speed_kd = 0, speed_min_output = 0, speed_max_output = 0,
      speed_bias = 0, top_fin_offset = 0, right_fin_offset = 0, left_fin_offset = 0\<rparr>"

text \<open>The members of the node: its parameter store and its private fields.\<close>

record PIDControl =
  parameters :: PIDControl_parameters
  init_flag :: bool
  myHeadingPID :: PID
  myDepthPID :: PID
  myVelocityPID :: PID
  desired_depth :: real
  desired_heading :: real
  desired_speed :: real
  yaw :: real
  x_velocity :: real
  depth :: real

text \<open>
  The constructor: the three \<open>calibrate\<close> calls in the order of the source, each with
  the timer period as its period; a rejected calibration leaves the constructor, and no
  publisher, subscription or timer is created. The member initialisers give the rest.
\<close>

definition PIDControl_new :: "PIDControl_parameters \<Rightarrow> error + PIDControl" where
  "PIDControl_new ps =
     (case calibrate PID_new (PIDControl_parameters.depth_kp ps)
             (PIDControl_parameters.depth_ki ps) (PIDControl_parameters.depth_kd ps)
             (PIDControl_parameters.depth_min_output ps)
             (PIDControl_parameters.depth_max_output ps)
             (real_of_int (pid_timer_period ps)) (PIDControl_parameters.depth_bias ps) of
        Inl e \<Rightarrow> Inl e
      | Inr depthPID \<Rightarrow>
     (case calibrate PID_new (PIDControl_parameters.heading_kp ps)
             (PIDControl_parameters.heading_ki ps) (PIDControl_parameters.heading_kd ps)
             (PIDControl_parameters.heading_min_output ps)
             (PIDControl_parameters.heading_max_output ps)
             (real_of_int (pid_timer_period ps)) (PIDControl_parameters.heading_bias ps) of
        Inl e \<Rightarrow> Inl e
      | Inr headingPID \<Rightarrow>
     (case calibrate PID_new (speed_kp ps) (speed_ki ps) (speed_kd ps)
             (speed_min_output ps) (speed_max_output ps)
             (real_of_int (pid_timer_period ps)) (speed_bias ps) of
        Inl e \<Rightarrow> Inl e
      | Inr velocityPID \<Rightarrow>
          Inr \<lparr>PIDControl.parameters = ps, PIDControl.init_flag = False,
               PIDControl.myHeadingPID = headingPID, PIDControl.myDepthPID = depthPID,
               myVelocityPID = velocityPID,
               PIDControl.desired_depth = 0, PIDControl.desired_heading = 0,
               PIDControl.desired_speed = 0, yaw = 0, x_velocity = 0, depth = 0\<rparr>)))"

definition PIDControl_init_callback :: "PIDControl \<Rightarrow> PIDControl" where
  "PIDControl_init_callback this = this\<lparr>PIDControl.init_flag := True\<rparr>"

definition PIDControl_desired_depth_callback :: "real \<Rightarrow> PIDControl \<Rightarrow> PIDControl" where
  "PIDControl_desired_depth_callback depth_msg this =
     this\<lparr>PIDControl.desired_depth := depth_msg\<rparr>"

definition PIDControl_desired_heading_callback :: "real \<Rightarrow> PIDControl \<Rightarrow> PIDControl" where
  "PIDControl_desired_heading_callback heading_msg this =
     this\<lparr>PIDControl.desired_heading := heading_msg\<rparr>"

definition PIDControl_desired_speed_callback :: "real \<Rightarrow> PIDControl \<Rightarrow> PIDControl" where
  "PIDControl_desired_speed_callback speed_msg this =
     this\<lparr>PIDControl.desired_speed := speed_msg\<rparr>"

definition PIDControl_depth_callback :: "real \<Rightarrow> PIDControl \<Rightarrow> PIDControl" where
  "PIDControl_depth_callback z this = this\<lparr>depth := z\<rparr>"

definition PIDControl_yaw_callback :: "ModemRec \<Rightarrow> PIDControl \<Rightarrow> PIDControl" where
  "PIDControl_yaw_callback yaw_msg this =
     (if msg_id yaw_msg = 0x10
      then this\<lparr>yaw := real_of_int (sint (ModemRec.attitude_yaw yaw_msg))\<rparr>
      else this)"

text \<open>
  The three fin assignments of \<open>timer_callback\<close>: each right-hand side is a \<open>double\<close>
  (an \<open>int\<close> plus \<open>trim_ratio\<close> times an \<open>int\<close> plus an offset), converted to the integer
  element of \<open>fin\<close> by the assignment.
\<close>

definition PIDControl_fins :: "PIDControl_parameters \<Rightarrow> int \<Rightarrow> int \<Rightarrow> int \<Rightarrow> int list" where
  "PIDControl_fins ps depth_pos heading_pos velocity_level =
     [cpp_trunc (real_of_int heading_pos + trim_ratio ps * real_of_int velocity_level
                   + top_fin_offset ps),
      cpp_trunc (real_of_int depth_pos + trim_ratio ps * real_of_int velocity_level
                   + right_fin_offset ps),
      cpp_trunc (real_of_int depth_pos + trim_ratio ps * real_of_int velocity_level
                   + left_fin_offset ps)]"

text \<open>
  The timer callback returns the messages it publishes on \<open>control_command\<close> and the
  node afterwards. The velocity controller is never asked: the call is commented out
  in the source and the desired speed, converted to \<open>int\<close>, stands in its place.
\<close>

definition PIDControl_timer_callback :: "nat \<Rightarrow> PIDControl \<Rightarrow> UCommand list \<times> PIDControl" where
  "PIDControl_timer_callback now this =
     (let message = UCommand_new\<lparr>stamp := now\<rparr> in
      if PIDControl.init_flag this then
        (let (depth_pos, depthPID) =
               compute (PIDControl.myDepthPID this) (PIDControl.desired_depth this)
                 (- depth this);
             (heading_pos, headingPID) =
               compute (PIDControl.myHeadingPID this) (PIDControl.desired_heading this)
                 (yaw this);
             velocity_level = cpp_trunc (PIDControl.desired_speed this);
             message = message\<lparr>fin := PIDControl_fins (PIDControl.parameters this)
                                          depth_pos heading_pos velocity_level\<rparr>;
             message = message\<lparr>thruster := velocity_level\<rparr>
         in ([message],
             this\<lparr>PIDControl.myDepthPID := depthPID, PIDControl.myHeadingPID := headingPID\<rparr>))
      else ([], this))"

fun PIDControl_step :: "PIDControl \<Rightarrow> event \<Rightarrow> UCommand list \<times> PIDControl" where
  "PIDControl_step this Init = ([], PIDControl_init_callback this)"
| "PIDControl_step this (DesiredDepth v) = ([], PIDControl_desired_depth_callback v this)"
| "PIDControl_step this (DesiredHeading v) = ([], PIDControl_desired_heading_callback v this)"
| "PIDControl_step this (DesiredSpeed v) = ([], PIDControl_desired_speed_callback v this)"
| "PIDControl_step this (DepthData z) = ([], PIDControl_depth_callback z this)"
| "PIDControl_step this (ModemRecMsg m) = ([], PIDControl_yaw_callback m this)"
| "PIDControl_step this (ModemStatusMsg m) = ([], this)"
| "PIDControl_step this (TimerTick now) = PIDControl_timer_callback now this"

text \<open>\<open>rclcpp::spin\<close>: the callbacks run one after another; the result collects what was published.\<close>

fun PIDControl_spin :: "PIDControl \<Rightarrow> event list \<Rightarrow> UCommand list \<times> PIDControl" where
  "PIDControl_spin this [] = ([], this)"
| "PIDControl_spin this (e # es) =
     (let (out, this') = PIDControl_step this e;
          (outs, this'') = PIDControl_spin this' es
      in (out @ outs, this''))"

text \<open>\<open>main\<close>: construct the node, then spin; a constructor that throws ends the process.\<close>

definition PIDControl_main :: "PIDControl_parameters \<Rightarrow> event list \<Rightarrow> UCommand list" where
  "PIDControl_main ps es =
     (case PIDControl_new ps of Inl e \<Rightarrow> [] | Inr node \<Rightarrow> fst (PIDControl_spin node es))"

section \<open>The node \<open>coug_controls\<close> (class \<open>CougControls\<close>)\<close>

record CougControls_parameters =
  timer_period :: int
  depth_kp :: real
  depth_ki :: real
  depth_kd :: real
  depth_min_output :: int
  depth_max_output :: int
  depth_bias :: int
  heading_kp :: real
  heading_ki :: real
  heading_kd :: real
  heading_min_output :: int
  heading_max_output :: int
  heading_bias :: int
  magnetic_declination :: real

definition CougControls_default_parameters :: CougControls_parameters where
  "CougControls_default_parameters =
     \<lparr>timer_period = 80,
      CougControls_parameters.depth_kp = 0, CougControls_parameters.depth_ki = 0,
      CougControls_parameters.depth_kd = 0, CougControls_parameters.depth_min_output = 0,
      CougControls_parameters.depth_max_output = 0, CougControls_parameters.depth_bias = 0,
      CougControls_parameters.heading_kp = 0, CougControls_parameters.heading_ki = 0,
      CougControls_parameters.heading_kd = 0, CougControls_parameters.heading_min_output = 0,
      CougControls_parameters.heading_max_output = 0, CougControls_parameters.heading_bias = 0,
      CougControls_parameters.magnetic_declination = 107 / 10\<rparr>"

record CougControls =
  parameters :: CougControls_parameters
  init_flag :: bool
  myHeadingPID :: PID
  myDepthPID :: PID
  magnetic_declination :: real
  desired_depth :: real
  desired_heading :: real
  desired_speed :: real
  actual_depth :: real
  actual_heading :: real

text \<open>
  The constructor: the member \<open>magnetic_declination\<close> is read from the parameter, then
  the two \<open>calibrate\<close> calls follow in the order of the source.
\<close>

definition CougControls_new :: "CougControls_parameters \<Rightarrow> error + CougControls" where
  "CougControls_new ps =
     (case calibrate PID_new (CougControls_parameters.depth_kp ps)
             (CougControls_parameters.depth_ki ps) (CougControls_parameters.depth_kd ps)
             (CougControls_parameters.depth_min_output ps)
             (CougControls_parameters.depth_max_output ps)
             (real_of_int (timer_period ps)) (CougControls_parameters.depth_bias ps) of
        Inl e \<Rightarrow> Inl e
      | Inr depthPID \<Rightarrow>
     (case calibrate PID_new (CougControls_parameters.heading_kp ps)
             (CougControls_parameters.heading_ki ps) (CougControls_parameters.heading_kd ps)
             (CougControls_parameters.heading_min_output ps)
             (CougControls_parameters.heading_max_output ps)
             (real_of_int (timer_period ps)) (CougControls_parameters.heading_bias ps) of
        Inl e \<Rightarrow> Inl e
      | Inr headingPID \<Rightarrow>
          Inr \<lparr>CougControls.parameters = ps, CougControls.init_flag = False,
               CougControls.myHeadingPID = headingPID, CougControls.myDepthPID = depthPID,
               CougControls.magnetic_declination =
                 CougControls_parameters.magnetic_declination ps,
               CougControls.desired_depth = 0, CougControls.desired_heading = 0,
               CougControls.desired_speed = 0, actual_depth = 0, actual_heading = 0\<rparr>))"

definition CougControls_init_callback :: "CougControls \<Rightarrow> CougControls" where
  "CougControls_init_callback this = this\<lparr>CougControls.init_flag := True\<rparr>"

definition CougControls_desired_depth_callback :: "real \<Rightarrow> CougControls \<Rightarrow> CougControls" where
  "CougControls_desired_depth_callback depth_msg this =
     this\<lparr>CougControls.desired_depth := depth_msg\<rparr>"

definition CougControls_desired_heading_callback :: "real \<Rightarrow> CougControls \<Rightarrow> CougControls" where
  "CougControls_desired_heading_callback heading_msg this =
     this\<lparr>CougControls.desired_heading := heading_msg\<rparr>"

definition CougControls_desired_speed_callback :: "real \<Rightarrow> CougControls \<Rightarrow> CougControls" where
  "CougControls_desired_speed_callback speed_msg this =
     this\<lparr>CougControls.desired_speed := speed_msg\<rparr>"

definition CougControls_actual_depth_callback :: "real \<Rightarrow> CougControls \<Rightarrow> CougControls" where
  "CougControls_actual_depth_callback z this = this\<lparr>actual_depth := z\<rparr>"

definition CougControls_actual_heading_callback ::
  "ModemStatus \<Rightarrow> CougControls \<Rightarrow> CougControls" where
  "CougControls_actual_heading_callback heading_msg this =
     this\<lparr>actual_heading :=
            1 / 10 * real_of_int (sint (ModemStatus.attitude_yaw heading_msg))
              + CougControls.magnetic_declination this\<rparr>"

definition CougControls_timer_callback ::
  "nat \<Rightarrow> CougControls \<Rightarrow> UCommand list \<times> CougControls" where
  "CougControls_timer_callback now this =
     (let message = UCommand_new\<lparr>stamp := now\<rparr> in
      if CougControls.init_flag this then
        (let (depth_pos, depthPID) =
               compute (CougControls.myDepthPID this) (CougControls.desired_depth this)
                 (- actual_depth this);
             (heading_pos, headingPID) =
               compute (CougControls.myHeadingPID this) (CougControls.desired_heading this)
                 (actual_heading this);
             message = message\<lparr>fin := (fin message)[0 := heading_pos]\<rparr>;
             message = message\<lparr>fin := (fin message)[1 := - 1 * depth_pos]\<rparr>;
             message = message\<lparr>fin := (fin message)[2 := depth_pos]\<rparr>;
             message = message\<lparr>thruster := cpp_trunc (CougControls.desired_speed this)\<rparr>
         in ([message],
             this\<lparr>CougControls.myDepthPID := depthPID,
                  CougControls.myHeadingPID := headingPID\<rparr>))
      else ([], this))"

fun CougControls_step :: "CougControls \<Rightarrow> event \<Rightarrow> UCommand list \<times> CougControls" where
  "CougControls_step this Init = ([], CougControls_init_callback this)"
| "CougControls_step this (DesiredDepth v) = ([], CougControls_desired_depth_callback v this)"
| "CougControls_step this (DesiredHeading v) = ([], CougControls_desired_heading_callback v this)"
| "CougControls_step this (DesiredSpeed v) = ([], CougControls_desired_speed_callback v this)"
| "CougControls_step this (DepthData z) = ([], CougControls_actual_depth_callback z this)"
| "CougControls_step this (ModemRecMsg m) = ([], this)"
| "CougControls_step this (ModemStatusMsg m) = ([], CougControls_actual_heading_callback m this)"
| "CougControls_step this (TimerTick now) = CougControls_timer_callback now this"

fun CougControls_spin :: "CougControls \<Rightarrow> event list \<Rightarrow> UCommand list \<times> CougControls" where
  "CougControls_spin this [] = ([], this)"
| "CougControls_spin this (e # es) =
     (let (out, this') = CougControls_step this e;
          (outs, this'') = CougControls_spin this' es
      in (out @ outs, this''))"

definition CougControls_main :: "CougControls_parameters \<Rightarrow> event list \<Rightarrow> UCommand list" where
  "CougControls_main ps es =
     (case CougControls_new ps of Inl e \<Rightarrow> [] | Inr node \<Rightarrow> fst (CougControls_spin node es))"

section \<open>The mixing law as the specification states it\<close>

text \<open>
  This predicate follows the words of the specification, not the code: for signs
  \<open>sign_r\<close>, \<open>sign_l\<close>, a trim ratio and three offsets, a command obeys the fixed mixing
  law for the axis outputs and the speed value when the two depth-fin signs are
  opposite and each fin equals its axis term plus trim times speed plus its offset.
  The nodes are compared with it below.
\<close>

definition spec_mixing_law ::
  "real \<Rightarrow> real \<Rightarrow> real \<Rightarrow> real \<Rightarrow> real \<Rightarrow> real \<Rightarrow> int \<Rightarrow> int \<Rightarrow> real \<Rightarrow> UCommand \<Rightarrow> bool" where
  "spec_mixing_law sign_r sign_l trim top_offset right_offset left_offset
       depth_output heading_output speed_value command \<longleftrightarrow>
     sign_r = - sign_l
     \<and> real_of_int (fin command ! 0)
         = real_of_int heading_output + trim * speed_value + top_offset
     \<and> real_of_int (fin command ! 1)
         = sign_r * real_of_int depth_output + trim * speed_value + right_offset
     \<and> real_of_int (fin command ! 2)
         = sign_l * real_of_int depth_output + trim * speed_value + left_offset"

section \<open>Example configurations\<close>

text \<open>
  A configuration of each node with proportional control on both axes (the gains and
  bounds of the first worked scenario for depth), and the node each constructor builds
  from it. They serve as concrete inputs below.
\<close>

definition PIDControl_example_parameters :: PIDControl_parameters where
  "PIDControl_example_parameters =
     PIDControl_default_parameters
       \<lparr>PIDControl_parameters.depth_kp := 2,
        PIDControl_parameters.depth_min_output := - 100,
        PIDControl_parameters.depth_max_output := 100,
        PIDControl_parameters.heading_kp := 1,
        PIDControl_parameters.heading_min_output := - 90,
        PIDControl_parameters.heading_max_output := 90\<rparr>"

definition PIDControl_example :: PIDControl where
  "PIDControl_example =
     \<lparr>PIDControl.parameters = PIDControl_example_parameters,
      PIDControl.init_flag = False,
      PIDControl.myHeadingPID =
        PID_new\<lparr>kp := 1, min_output := - 90, max_output := 90, period := 80\<rparr>,
      PIDControl.myDepthPID =
        PID_new\<lparr>kp := 2, min_output := - 100, max_output := 100, period := 80\<rparr>,
      myVelocityPID = PID_new\<lparr>period := 80\<rparr>,
      PIDControl.desired_depth = 0, PIDControl.desired_heading = 0,
      PIDControl.desired_speed = 0, yaw = 0, x_velocity = 0, depth = 0\<rparr>"

definition CougControls_example_parameters :: CougControls_parameters where
  "CougControls_example_parameters =
     CougControls_default_parameters
       \<lparr>CougControls_parameters.depth_kp := 2,
        CougControls_parameters.depth_min_output := - 100,
        CougControls_parameters.depth_max_output := 100,
        CougControls_parameters.heading_kp := 1,
        CougControls_parameters.heading_min_output := - 90,
        CougControls_parameters.heading_max_output := 90\<rparr>"

definition CougControls_example :: CougControls where
  "CougControls_example =
     \<lparr>CougControls.parameters = CougControls_example_parameters,
      CougControls.init_flag = False,
      CougControls.myHeadingPID =
        PID_new\<lparr>kp := 1, min_output := - 90, max_output := 90, period := 80\<rparr>,
      CougControls.myDepthPID =
        PID_new\<lparr>kp := 2, min_output := - 100, max_output := 100, period := 80\<rparr>,
      CougControls.magnetic_declination = 107 / 10,
      CougControls.desired_depth = 0, CougControls.desired_heading = 0,
      CougControls.desired_speed = 0, actual_depth = 0, actual_heading = 0\<rparr>"

section \<open>Properties of the axis controller\<close>

lemma round_half_away_bounds:
  assumes "real_of_int lo \<le> x" and "x \<le> real_of_int hi"
  shows "lo \<le> round_half_away x \<and> round_half_away x \<le> hi"
proof (cases "0 \<le> x")
  case True
  have "\<lfloor>real_of_int lo + 1 / 2\<rfloor> \<le> \<lfloor>x + 1 / 2\<rfloor>"
    using assms(1) by (intro floor_mono) simp
  moreover have "\<lfloor>x + 1 / 2\<rfloor> \<le> \<lfloor>real_of_int hi + 1 / 2\<rfloor>"
    using assms(2) by (intro floor_mono) simp
  moreover have "\<lfloor>real_of_int lo + 1 / 2\<rfloor> = lo" and "\<lfloor>real_of_int hi + 1 / 2\<rfloor> = hi"
    by linarith+
  ultimately show ?thesis
    using True by (simp add: round_half_away_def)
next
  case False
  have "\<lceil>real_of_int lo - 1 / 2\<rceil> \<le> \<lceil>x - 1 / 2\<rceil>"
    using assms(1) by (intro ceiling_mono) simp
  moreover have "\<lceil>x - 1 / 2\<rceil> \<le> \<lceil>real_of_int hi - 1 / 2\<rceil>"
    using assms(2) by (intro ceiling_mono) simp
  moreover have "\<lceil>real_of_int lo - 1 / 2\<rceil> = lo" and "\<lceil>real_of_int hi - 1 / 2\<rceil> = hi"
    by linarith+
  ultimately show ?thesis
    using False by (simp add: round_half_away_def)
qed

lemma clamp_bounds:
  assumes "lo \<le> hi"
  shows "lo \<le> clamp lo hi x \<and> clamp lo hi x \<le> hi"
  using assms by (simp add: clamp_def)

lemma compute_output_bounds:
  assumes "min_output self \<le> max_output self"
  shows "min_output self \<le> fst (compute self desired actual)
         \<and> fst (compute self desired actual) \<le> max_output self"
proof -
  have "real_of_int (min_output self) \<le> real_of_int (max_output self)"
    using assms by simp
  then show ?thesis
    unfolding compute_def Let_def fst_conv
    by (intro round_half_away_bounds conjunct1 [OF clamp_bounds] conjunct2 [OF clamp_bounds])
qed

lemma compute_keeps_calibration:
  "min_output (snd (compute self desired actual)) = min_output self
   \<and> max_output (snd (compute self desired actual)) = max_output self
   \<and> kp (snd (compute self desired actual)) = kp self
   \<and> ki (snd (compute self desired actual)) = ki self
   \<and> kd (snd (compute self desired actual)) = kd self
   \<and> period (snd (compute self desired actual)) = period self
   \<and> bias (snd (compute self desired actual)) = bias self"
  by (simp add: compute_def Let_def)

lemma compute_all_keeps_bounds:
  "min_output (compute_all self inputs) = min_output self
   \<and> max_output (compute_all self inputs) = max_output self"
proof (induction inputs arbitrary: self)
  case Nil
  show ?case by simp
next
  case (Cons pair rest)
  obtain desired actual where pair: "pair = (desired, actual)"
    by (cases pair)
  show ?case
    unfolding pair compute_all.simps
    by (simp add: Cons.IH compute_keeps_calibration)
qed

lemma calibrate_Inr:
  assumes "calibrate self p i d mn mx per b = Inr c"
  shows "min_output c = mn \<and> max_output c = mx \<and> mn \<le> mx \<and> 0 < per \<and> period c = per"
  using assms by (auto simp: calibrate_def split: if_splits)

text \<open>
  Claim C1. For every calibration that is accepted (period positive, minimum not above
  maximum) and every pair of inputs, in every controller state reached from the
  calibrated controller by any sequence of earlier \<open>compute\<close> calls, \<open>compute\<close> returns
  an integer between \<open>min_output\<close> and \<open>max_output\<close>, both included.
\<close>

theorem compute_within_bounds:
  assumes "calibrate self p i d mn mx per b = Inr c"
  shows "mn \<le> fst (compute (compute_all c inputs) desired actual)
         \<and> fst (compute (compute_all c inputs) desired actual) \<le> mx"
proof -
  have c: "min_output c = mn" "max_output c = mx" "mn \<le> mx"
    using calibrate_Inr [OF assms] by simp_all
  have "min_output (compute_all c inputs) = mn" "max_output (compute_all c inputs) = mx"
    using compute_all_keeps_bounds [of c inputs] c by simp_all
  then show ?thesis
    using compute_output_bounds [of "compute_all c inputs" desired actual] c(3) by simp
qed

theorem compute_within_bounds_witness:
  "calibrate PID_new 2 0 0 (- 100) 100 (2 / 25) 0
     = Inr (PID_new\<lparr>kp := 2, min_output := - 100, max_output := 100, period := 2 / 25\<rparr>)
   \<and> - 100 \<le> fst (compute (compute_all
         (PID_new\<lparr>kp := 2, min_output := - 100, max_output := 100, period := 2 / 25\<rparr>)
         [(5, 3)]) 3 100)
   \<and> fst (compute (compute_all
         (PID_new\<lparr>kp := 2, min_output := - 100, max_output := 100, period := 2 / 25\<rparr>)
         [(5, 3)]) 3 100) \<le> 100
   \<and> fst (compute
         (PID_new\<lparr>kp := 2, min_output := - 100, max_output := 100, period := 2 / 25\<rparr>)
         5 3) = 4
   \<and> fst (compute (compute_all
         (PID_new\<lparr>kp := 2, min_output := - 100, max_output := 100, period := 2 / 25\<rparr>)
         [(5, 3)]) 3 100) = - 100"
proof -
  have h: "calibrate PID_new 2 0 0 (- 100) 100 (2 / 25) 0
     = Inr (PID_new\<lparr>kp := 2, min_output := - 100, max_output := 100, period := 2 / 25\<rparr>)"
    by (simp add: calibrate_def PID_new_def)
  have scenarios:
    "fst (compute
         (PID_new\<lparr>kp := 2, min_output := - 100, max_output := 100, period := 2 / 25\<rparr>)
         5 3) = 4"
    "fst (compute (compute_all
         (PID_new\<lparr>kp := 2, min_output := - 100, max_output := 100, period := 2 / 25\<rparr>)
         [(5, 3)]) 3 100) = - 100"
    by code_simp+
  show ?thesis
    using h compute_within_bounds [OF h, of "[(5, 3)]" 3 100] scenarios by blast
qed

section \<open>Properties of the control cycle driver\<close>

text \<open>What one expiry of the timer does, written out for each node.\<close>

lemma PIDControl_tick:
  "PIDControl_timer_callback now this =
     (if PIDControl.init_flag this
      then ([\<lparr>stamp = now,
              fin = PIDControl_fins (PIDControl.parameters this)
                      (fst (compute (PIDControl.myDepthPID this) (PIDControl.desired_depth this)
                              (- depth this)))
                      (fst (compute (PIDControl.myHeadingPID this)
                              (PIDControl.desired_heading this) (yaw this)))
                      (cpp_trunc (PIDControl.desired_speed this)),
              thruster = cpp_trunc (PIDControl.desired_speed this)\<rparr>],
            this\<lparr>PIDControl.myDepthPID :=
                   snd (compute (PIDControl.myDepthPID this) (PIDControl.desired_depth this)
                          (- depth this)),
                 PIDControl.myHeadingPID :=
                   snd (compute (PIDControl.myHeadingPID this)
                          (PIDControl.desired_heading this) (yaw this))\<rparr>)
      else ([], this))"
  by (simp add: PIDControl_timer_callback_def Let_def UCommand_new_def case_prod_beta)

lemma CougControls_tick:
  "CougControls_timer_callback now this =
     (if CougControls.init_flag this
      then ([\<lparr>stamp = now,
              fin = [fst (compute (CougControls.myHeadingPID this)
                            (CougControls.desired_heading this) (actual_heading this)),
                     - fst (compute (CougControls.myDepthPID this)
                              (CougControls.desired_depth this) (- actual_depth this)),
                     fst (compute (CougControls.myDepthPID this)
                            (CougControls.desired_depth this) (- actual_depth this))],
              thruster = cpp_trunc (CougControls.desired_speed this)\<rparr>],
            this\<lparr>CougControls.myDepthPID :=
                   snd (compute (CougControls.myDepthPID this) (CougControls.desired_depth this)
                          (- actual_depth this)),
                 CougControls.myHeadingPID :=
                   snd (compute (CougControls.myHeadingPID this)
                          (CougControls.desired_heading this) (actual_heading this))\<rparr>)
      else ([], this))"
  by (simp add: CougControls_timer_callback_def Let_def UCommand_new_def case_prod_beta
        numeral_2_eq_2)

lemma PIDControl_step_init_flag:
  "PIDControl.init_flag this \<Longrightarrow> PIDControl.init_flag (snd (PIDControl_step this e))"
  by (cases e)
     (simp_all add: PIDControl_init_callback_def PIDControl_desired_depth_callback_def
        PIDControl_desired_heading_callback_def PIDControl_desired_speed_callback_def
        PIDControl_depth_callback_def PIDControl_yaw_callback_def PIDControl_tick)

lemma PIDControl_spin_init_flag:
  "PIDControl.init_flag this \<Longrightarrow> PIDControl.init_flag (snd (PIDControl_spin this es))"
proof (induction es arbitrary: this)
  case Nil
  then show ?case by simp
next
  case (Cons e es)
  have "PIDControl.init_flag (snd (PIDControl_step this e))"
    using Cons.prems by (rule PIDControl_step_init_flag)
  then have "PIDControl.init_flag (snd (PIDControl_spin (snd (PIDControl_step this e)) es))"
    by (rule Cons.IH)
  then show ?case
    by (simp add: case_prod_beta)
qed

lemma CougControls_step_init_flag:
  "CougControls.init_flag this \<Longrightarrow> CougControls.init_flag (snd (CougControls_step this e))"
  by (cases e)
     (simp_all add: CougControls_init_callback_def CougControls_desired_depth_callback_def
        CougControls_desired_heading_callback_def CougControls_desired_speed_callback_def
        CougControls_actual_depth_callback_def CougControls_actual_heading_callback_def
        CougControls_tick)

lemma CougControls_spin_init_flag:
  "CougControls.init_flag this \<Longrightarrow> CougControls.init_flag (snd (CougControls_spin this es))"
proof (induction es arbitrary: this)
  case Nil
  then show ?case by simp
next
  case (Cons e es)
  have "CougControls.init_flag (snd (CougControls_step this e))"
    using Cons.prems by (rule CougControls_step_init_flag)
  then have "CougControls.init_flag (snd (CougControls_spin (snd (CougControls_step this e)) es))"
    by (rule Cons.IH)
  then show ?case
    by (simp add: case_prod_beta)
qed

lemma PIDControl_new_Inr:
  assumes "PIDControl_new ps = Inr node"
  shows "\<not> PIDControl.init_flag node \<and> PIDControl.parameters node = ps
         \<and> PIDControl.desired_depth node = 0 \<and> PIDControl.desired_heading node = 0
         \<and> PIDControl.desired_speed node = 0 \<and> yaw node = 0 \<and> depth node = 0"
  using assms by (auto simp: PIDControl_new_def split: sum.splits)

lemma CougControls_new_Inr:
  assumes "CougControls_new ps = Inr node"
  shows "\<not> CougControls.init_flag node \<and> CougControls.parameters node = ps
         \<and> CougControls.magnetic_declination node = CougControls_parameters.magnetic_declination ps
         \<and> CougControls.desired_depth node = 0 \<and> CougControls.desired_heading node = 0
         \<and> CougControls.desired_speed node = 0 \<and> actual_depth node = 0
         \<and> actual_heading node = 0"
  using assms by (auto simp: CougControls_new_def split: sum.splits)


lemma PIDControl_new_example:
  "PIDControl_new PIDControl_example_parameters = Inr PIDControl_example"
  by (simp add: PIDControl_new_def PIDControl_example_parameters_def
        PIDControl_default_parameters_def PIDControl_example_def calibrate_def PID_new_def)

lemma CougControls_new_example:
  "CougControls_new CougControls_example_parameters = Inr CougControls_example"
  by (simp add: CougControls_new_def CougControls_example_parameters_def
        CougControls_default_parameters_def CougControls_example_def calibrate_def PID_new_def)

lemma running_examples:
  "PIDControl.init_flag (PIDControl_init_callback PIDControl_example)"
  "CougControls.init_flag (CougControls_init_callback CougControls_example)"
  by (simp_all add: PIDControl_init_callback_def CougControls_init_callback_def)

lemma PIDControl_step_idle:
  assumes "\<not> PIDControl.init_flag this" and "e \<noteq> Init"
  shows "fst (PIDControl_step this e) = []
         \<and> \<not> PIDControl.init_flag (snd (PIDControl_step this e))
         \<and> PIDControl.myDepthPID (snd (PIDControl_step this e)) = PIDControl.myDepthPID this
         \<and> PIDControl.myHeadingPID (snd (PIDControl_step this e)) = PIDControl.myHeadingPID this
         \<and> myVelocityPID (snd (PIDControl_step this e)) = myVelocityPID this"
  using assms
  by (cases e)
     (simp_all add: PIDControl_desired_depth_callback_def
        PIDControl_desired_heading_callback_def PIDControl_desired_speed_callback_def
        PIDControl_depth_callback_def PIDControl_yaw_callback_def PIDControl_tick)

lemma PIDControl_spin_idle:
  assumes "\<not> PIDControl.init_flag this" and "Init \<notin> set es"
  shows "fst (PIDControl_spin this es) = []
         \<and> PIDControl.myDepthPID (snd (PIDControl_spin this es)) = PIDControl.myDepthPID this
         \<and> PIDControl.myHeadingPID (snd (PIDControl_spin this es)) = PIDControl.myHeadingPID this
         \<and> myVelocityPID (snd (PIDControl_spin this es)) = myVelocityPID this"
  using assms
proof (induction es arbitrary: this)
  case Nil
  show ?case by simp
next
  case (Cons e es)
  have e: "e \<noteq> Init" and es: "Init \<notin> set es"
    using Cons.prems(2) by auto
  note step = PIDControl_step_idle [OF Cons.prems(1) e]
  have rest: "fst (PIDControl_spin (snd (PIDControl_step this e)) es) = []
     \<and> PIDControl.myDepthPID (snd (PIDControl_spin (snd (PIDControl_step this e)) es))
         = PIDControl.myDepthPID (snd (PIDControl_step this e))
     \<and> PIDControl.myHeadingPID (snd (PIDControl_spin (snd (PIDControl_step this e)) es))
         = PIDControl.myHeadingPID (snd (PIDControl_step this e))
     \<and> myVelocityPID (snd (PIDControl_spin (snd (PIDControl_step this e)) es))
         = myVelocityPID (snd (PIDControl_step this e))"
    using step es by (intro Cons.IH) simp_all
  show ?case
    using step rest by (simp add: case_prod_beta)
qed

lemma CougControls_step_idle:
  assumes "\<not> CougControls.init_flag this" and "e \<noteq> Init"
  shows "fst (CougControls_step this e) = []
         \<and> \<not> CougControls.init_flag (snd (CougControls_step this e))
         \<and> CougControls.myDepthPID (snd (CougControls_step this e)) = CougControls.myDepthPID this
         \<and> CougControls.myHeadingPID (snd (CougControls_step this e))
             = CougControls.myHeadingPID this"
  using assms
  by (cases e)
     (simp_all add: CougControls_desired_depth_callback_def
        CougControls_desired_heading_callback_def CougControls_desired_speed_callback_def
        CougControls_actual_depth_callback_def CougControls_actual_heading_callback_def
        CougControls_tick)

lemma CougControls_spin_idle:
  assumes "\<not> CougControls.init_flag this" and "Init \<notin> set es"
  shows "fst (CougControls_spin this es) = []
         \<and> CougControls.myDepthPID (snd (CougControls_spin this es)) = CougControls.myDepthPID this
         \<and> CougControls.myHeadingPID (snd (CougControls_spin this es))
             = CougControls.myHeadingPID this"
  using assms
proof (induction es arbitrary: this)
  case Nil
  show ?case by simp
next
  case (Cons e es)
  have e: "e \<noteq> Init" and es: "Init \<notin> set es"
    using Cons.prems(2) by auto
  note step = CougControls_step_idle [OF Cons.prems(1) e]
  have rest: "fst (CougControls_spin (snd (CougControls_step this e)) es) = []
     \<and> CougControls.myDepthPID (snd (CougControls_spin (snd (CougControls_step this e)) es))
         = CougControls.myDepthPID (snd (CougControls_step this e))
     \<and> CougControls.myHeadingPID (snd (CougControls_spin (snd (CougControls_step this e)) es))
         = CougControls.myHeadingPID (snd (CougControls_step this e))"
    using step es by (intro Cons.IH) simp_all
  show ?case
    using step rest by (simp add: case_prod_beta)
qed


lemma PIDControl_step_running:
  assumes "PIDControl.init_flag this"
  shows "length (fst (PIDControl_step this e)) = (if is_tick e then 1 else 0)"
  using assms by (cases e) (simp_all add: PIDControl_tick)

lemma PIDControl_spin_running:
  assumes "PIDControl.init_flag this"
  shows "length (fst (PIDControl_spin this es)) = length (filter is_tick es)"
  using assms
proof (induction es arbitrary: this)
  case Nil
  show ?case by simp
next
  case (Cons e es)
  have "length (fst (PIDControl_spin (snd (PIDControl_step this e)) es))
          = length (filter is_tick es)"
    using Cons.prems by (intro Cons.IH PIDControl_step_init_flag)
  then show ?case
    using PIDControl_step_running [OF Cons.prems, of e] by (simp add: case_prod_beta)
qed

lemma CougControls_step_running:
  assumes "CougControls.init_flag this"
  shows "length (fst (CougControls_step this e)) = (if is_tick e then 1 else 0)"
  using assms by (cases e) (simp_all add: CougControls_tick)

lemma CougControls_spin_running:
  assumes "CougControls.init_flag this"
  shows "length (fst (CougControls_spin this es)) = length (filter is_tick es)"
  using assms
proof (induction es arbitrary: this)
  case Nil
  show ?case by simp
next
  case (Cons e es)
  have "length (fst (CougControls_spin (snd (CougControls_step this e)) es))
          = length (filter is_tick es)"
    using Cons.prems by (intro Cons.IH CougControls_step_init_flag)
  then show ?case
    using CougControls_step_running [OF Cons.prems, of e] by (simp add: case_prod_beta)
qed

text \<open>
  Claim C2. A timer tick while the initialization flag is false publishes nothing and
  leaves the node, its controllers included, as it was (so no \<open>compute\<close> call is
  made); this holds for every tick of any run that contains no init message. A tick
  while the flag is true publishes exactly one command, built from the desired and
  actual values stored in the node at that moment; these are zero in the node that the
  constructor returns. From a state where the flag is true, a run publishes as many
  commands as it has ticks.
\<close>

theorem timer_tick_gate:
  "PIDControl_step pc (TimerTick now) =
     (if PIDControl.init_flag pc
      then ([\<lparr>stamp = now,
              fin = PIDControl_fins (PIDControl.parameters pc)
                      (fst (compute (PIDControl.myDepthPID pc) (PIDControl.desired_depth pc)
                              (- depth pc)))
                      (fst (compute (PIDControl.myHeadingPID pc)
                              (PIDControl.desired_heading pc) (yaw pc)))
                      (cpp_trunc (PIDControl.desired_speed pc)),
              thruster = cpp_trunc (PIDControl.desired_speed pc)\<rparr>],
            pc\<lparr>PIDControl.myDepthPID :=
                   snd (compute (PIDControl.myDepthPID pc) (PIDControl.desired_depth pc)
                          (- depth pc)),
                 PIDControl.myHeadingPID :=
                   snd (compute (PIDControl.myHeadingPID pc)
                          (PIDControl.desired_heading pc) (yaw pc))\<rparr>)
      else ([], pc))
   \<and> CougControls_step cc (TimerTick now) =
     (if CougControls.init_flag cc
      then ([\<lparr>stamp = now,
              fin = [fst (compute (CougControls.myHeadingPID cc)
                            (CougControls.desired_heading cc) (actual_heading cc)),
                     - fst (compute (CougControls.myDepthPID cc)
                              (CougControls.desired_depth cc) (- actual_depth cc)),
                     fst (compute (CougControls.myDepthPID cc)
                            (CougControls.desired_depth cc) (- actual_depth cc))],
              thruster = cpp_trunc (CougControls.desired_speed cc)\<rparr>],
            cc\<lparr>CougControls.myDepthPID :=
                   snd (compute (CougControls.myDepthPID cc) (CougControls.desired_depth cc)
                          (- actual_depth cc)),
                 CougControls.myHeadingPID :=
                   snd (compute (CougControls.myHeadingPID cc)
                          (CougControls.desired_heading cc) (actual_heading cc))\<rparr>)
      else ([], cc))
   \<and> (\<not> PIDControl.init_flag pc \<and> Init \<notin> set es \<longrightarrow>
        fst (PIDControl_spin pc es) = []
        \<and> PIDControl.myDepthPID (snd (PIDControl_spin pc es)) = PIDControl.myDepthPID pc
        \<and> PIDControl.myHeadingPID (snd (PIDControl_spin pc es)) = PIDControl.myHeadingPID pc
        \<and> myVelocityPID (snd (PIDControl_spin pc es)) = myVelocityPID pc)
   \<and> (\<not> CougControls.init_flag cc \<and> Init \<notin> set es \<longrightarrow>
        fst (CougControls_spin cc es) = []
        \<and> CougControls.myDepthPID (snd (CougControls_spin cc es)) = CougControls.myDepthPID cc
        \<and> CougControls.myHeadingPID (snd (CougControls_spin cc es))
            = CougControls.myHeadingPID cc)
   \<and> (PIDControl.init_flag rpc \<longrightarrow>
        length (fst (PIDControl_spin rpc es)) = length (filter is_tick es))
   \<and> (CougControls.init_flag rcc \<longrightarrow>
        length (fst (CougControls_spin rcc es)) = length (filter is_tick es))
   \<and> (PIDControl_new ps = Inr pc0 \<longrightarrow>
        PIDControl.desired_depth pc0 = 0 \<and> PIDControl.desired_heading pc0 = 0
        \<and> PIDControl.desired_speed pc0 = 0 \<and> yaw pc0 = 0 \<and> depth pc0 = 0)
   \<and> (CougControls_new qs = Inr cc0 \<longrightarrow>
        CougControls.desired_depth cc0 = 0 \<and> CougControls.desired_heading cc0 = 0
        \<and> CougControls.desired_speed cc0 = 0 \<and> actual_depth cc0 = 0
        \<and> actual_heading cc0 = 0)"
proof (intro conjI impI)
  show "PIDControl_step pc (TimerTick now) =
     (if PIDControl.init_flag pc
      then ([\<lparr>stamp = now,
              fin = PIDControl_fins (PIDControl.parameters pc)
                      (fst (compute (PIDControl.myDepthPID pc) (PIDControl.desired_depth pc)
                              (- depth pc)))
                      (fst (compute (PIDControl.myHeadingPID pc)
                              (PIDControl.desired_heading pc) (yaw pc)))
                      (cpp_trunc (PIDControl.desired_speed pc)),
              thruster = cpp_trunc (PIDControl.desired_speed pc)\<rparr>],
            pc\<lparr>PIDControl.myDepthPID :=
                   snd (compute (PIDControl.myDepthPID pc) (PIDControl.desired_depth pc)
                          (- depth pc)),
                 PIDControl.myHeadingPID :=
                   snd (compute (PIDControl.myHeadingPID pc)
                          (PIDControl.desired_heading pc) (yaw pc))\<rparr>)
      else ([], pc))"
    unfolding PIDControl_step.simps by (rule PIDControl_tick)
  show "CougControls_step cc (TimerTick now) =
     (if CougControls.init_flag cc
      then ([\<lparr>stamp = now,
              fin = [fst (compute (CougControls.myHeadingPID cc)
                            (CougControls.desired_heading cc) (actual_heading cc)),
                     - fst (compute (CougControls.myDepthPID cc)
                              (CougControls.desired_depth cc) (- actual_depth cc)),
                     fst (compute (CougControls.myDepthPID cc)
                            (CougControls.desired_depth cc) (- actual_depth cc))],
              thruster = cpp_trunc (CougControls.desired_speed cc)\<rparr>],
            cc\<lparr>CougControls.myDepthPID :=
                   snd (compute (CougControls.myDepthPID cc) (CougControls.desired_depth cc)
                          (- actual_depth cc)),
                 CougControls.myHeadingPID :=
                   snd (compute (CougControls.myHeadingPID cc)
                          (CougControls.desired_heading cc) (actual_heading cc))\<rparr>)
      else ([], cc))"
    unfolding CougControls_step.simps by (rule CougControls_tick)
qed (use PIDControl_spin_idle [of pc es] CougControls_spin_idle [of cc es]
       PIDControl_spin_running [of rpc es] CougControls_spin_running [of rcc es]
       PIDControl_new_Inr [of ps pc0] CougControls_new_Inr [of qs cc0] in simp_all)

theorem timer_tick_gate_witness:
  "\<not> PIDControl.init_flag PIDControl_example
   \<and> Init \<notin> set [DesiredDepth 3, DepthData (- 2), TimerTick 1]
   \<and> fst (PIDControl_spin PIDControl_example [DesiredDepth 3, DepthData (- 2), TimerTick 1]) = []
   \<and> \<not> CougControls.init_flag CougControls_example
   \<and> fst (CougControls_spin CougControls_example [DesiredDepth 3, DepthData (- 2), TimerTick 1])
       = []
   \<and> PIDControl.init_flag (PIDControl_init_callback PIDControl_example)
   \<and> length (fst (PIDControl_spin (PIDControl_init_callback PIDControl_example)
        [DesiredDepth 3, DepthData (- 2), TimerTick 1])) = 1
   \<and> CougControls.init_flag (CougControls_init_callback CougControls_example)
   \<and> length (fst (CougControls_spin (CougControls_init_callback CougControls_example)
        [DesiredDepth 3, DepthData (- 2), TimerTick 1])) = 1
   \<and> PIDControl_new PIDControl_example_parameters = Inr PIDControl_example
   \<and> PIDControl.desired_depth PIDControl_example = 0
   \<and> CougControls_new CougControls_example_parameters = Inr CougControls_example
   \<and> CougControls.desired_depth CougControls_example = 0
   \<and> PIDControl_main PIDControl_example_parameters
         [DesiredDepth 3, DepthData (- 2), TimerTick 1, Init, DesiredSpeed (26 / 5), TimerTick 2]
       = [\<lparr>stamp = 2, fin = [0, 2, 2], thruster = 5\<rparr>]
   \<and> CougControls_main CougControls_example_parameters
         [DesiredDepth 3, DepthData (- 2), TimerTick 1, Init, DesiredSpeed (26 / 5), TimerTick 2]
       = [\<lparr>stamp = 2, fin = [0, - 2, 2], thruster = 5\<rparr>]"
proof -
  have idle: "\<not> PIDControl.init_flag PIDControl_example"
    "\<not> CougControls.init_flag CougControls_example"
    by (simp_all add: PIDControl_example_def CougControls_example_def)
  have no_init: "Init \<notin> set [DesiredDepth 3, DepthData (- 2), TimerTick 1]"
    by simp
  have ticks: "length (filter is_tick [DesiredDepth 3, DepthData (- 2), TimerTick 1]) = 1"
    by simp
  have run: "PIDControl_main PIDControl_example_parameters
         [DesiredDepth 3, DepthData (- 2), TimerTick 1, Init, DesiredSpeed (26 / 5), TimerTick 2]
       = [\<lparr>stamp = 2, fin = [0, 2, 2], thruster = 5\<rparr>]"
    "CougControls_main CougControls_example_parameters
         [DesiredDepth 3, DepthData (- 2), TimerTick 1, Init, DesiredSpeed (26 / 5), TimerTick 2]
       = [\<lparr>stamp = 2, fin = [0, - 2, 2], thruster = 5\<rparr>]"
    by code_simp+
  show ?thesis
    using timer_tick_gate [of PIDControl_example 1 CougControls_example
        "[DesiredDepth 3, DepthData (- 2), TimerTick 1]"
        "PIDControl_init_callback PIDControl_example"
        "CougControls_init_callback CougControls_example"
        PIDControl_example_parameters PIDControl_example
        CougControls_example_parameters CougControls_example]
      idle no_init ticks running_examples run PIDControl_new_example CougControls_new_example
    by simp
qed

text \<open>
  Claim C3. The initialization flag is false in the node that the constructor returns,
  the init callback sets it, and no callback clears it: from a state where the flag is
  true, the flag is true after any sequence of callbacks.
\<close>

theorem init_flag_never_reset:
  "(PIDControl_new ps = Inr pc0 \<longrightarrow> \<not> PIDControl.init_flag pc0)
   \<and> PIDControl.init_flag (snd (PIDControl_step pc Init))
   \<and> (PIDControl.init_flag pc \<longrightarrow> PIDControl.init_flag (snd (PIDControl_spin pc es)))
   \<and> (CougControls_new qs = Inr cc0 \<longrightarrow> \<not> CougControls.init_flag cc0)
   \<and> CougControls.init_flag (snd (CougControls_step cc Init))
   \<and> (CougControls.init_flag cc \<longrightarrow> CougControls.init_flag (snd (CougControls_spin cc es)))"
  using PIDControl_new_Inr [of ps pc0] CougControls_new_Inr [of qs cc0]
    PIDControl_spin_init_flag [of pc es] CougControls_spin_init_flag [of cc es]
  by (simp add: PIDControl_init_callback_def CougControls_init_callback_def)


theorem init_flag_never_reset_witness:
  "PIDControl_new PIDControl_example_parameters = Inr PIDControl_example
   \<and> \<not> PIDControl.init_flag PIDControl_example
   \<and> PIDControl.init_flag (snd (PIDControl_step PIDControl_example Init))
   \<and> PIDControl.init_flag
       (snd (PIDControl_spin (snd (PIDControl_step PIDControl_example Init))
          [TimerTick 1, DesiredDepth 3, ModemRecMsg \<lparr>msg_id = 0x10, ModemRec.attitude_yaw = 10\<rparr>,
           DepthData (- 2), TimerTick 2]))
   \<and> CougControls_new CougControls_example_parameters = Inr CougControls_example
   \<and> \<not> CougControls.init_flag CougControls_example
   \<and> CougControls.init_flag (snd (CougControls_step CougControls_example Init))
   \<and> CougControls.init_flag
       (snd (CougControls_spin (snd (CougControls_step CougControls_example Init))
          [TimerTick 1, DesiredDepth 3, ModemRecMsg \<lparr>msg_id = 0x10, ModemRec.attitude_yaw = 10\<rparr>,
           DepthData (- 2), TimerTick 2]))"
proof -
  note started = init_flag_never_reset [of PIDControl_example_parameters PIDControl_example
      PIDControl_example "[]" CougControls_example_parameters CougControls_example
      CougControls_example]
  note kept = init_flag_never_reset [of PIDControl_example_parameters PIDControl_example
      "snd (PIDControl_step PIDControl_example Init)"
      "[TimerTick 1, DesiredDepth 3, ModemRecMsg \<lparr>msg_id = 0x10, ModemRec.attitude_yaw = 10\<rparr>,
        DepthData (- 2), TimerTick 2]"
      CougControls_example_parameters CougControls_example
      "snd (CougControls_step CougControls_example Init)"]
  show ?thesis
    using started kept PIDControl_new_example CougControls_new_example by blast
qed

lemma CougControls_step_declination:
  "CougControls.magnetic_declination (snd (CougControls_step this e))
     = CougControls.magnetic_declination this"
  by (cases e)
     (simp_all add: CougControls_init_callback_def CougControls_desired_depth_callback_def
        CougControls_desired_heading_callback_def CougControls_desired_speed_callback_def
        CougControls_actual_depth_callback_def CougControls_actual_heading_callback_def
        CougControls_tick)

lemma CougControls_spin_declination:
  "CougControls.magnetic_declination (snd (CougControls_spin this es))
     = CougControls.magnetic_declination this"
proof (induction es arbitrary: this)
  case Nil
  show ?case by simp
next
  case (Cons e es)
  show ?case
    by (simp add: case_prod_beta Cons.IH CougControls_step_declination)
qed

lemma PIDControl_new_Inl:
  assumes "pid_timer_period ps \<le> 0
           \<or> PIDControl_parameters.depth_max_output ps < PIDControl_parameters.depth_min_output ps
           \<or> PIDControl_parameters.heading_max_output ps
                < PIDControl_parameters.heading_min_output ps
           \<or> speed_max_output ps < speed_min_output ps"
  shows "PIDControl_new ps = Inl ConfigurationError"
  using assms by (auto simp: PIDControl_new_def calibrate_def)

lemma CougControls_new_Inl:
  assumes "timer_period qs \<le> 0
           \<or> CougControls_parameters.depth_max_output qs
                < CougControls_parameters.depth_min_output qs
           \<or> CougControls_parameters.heading_max_output qs
                < CougControls_parameters.heading_min_output qs"
  shows "CougControls_new qs = Inl ConfigurationError"
  using assms by (auto simp: CougControls_new_def calibrate_def)

section \<open>Properties of the actuator mixing\<close>

lemma cpp_trunc_of_int: "cpp_trunc (real_of_int n) = n"
  by (simp add: cpp_trunc_def)

lemma cpp_trunc_near: "\<bar>real_of_int (cpp_trunc x) - x\<bar> < 1"
  unfolding cpp_trunc_def by (cases "0 \<le> x") (simp_all, linarith+)

text \<open>
  Claim C4, as amended. On every running cycle the command of \<open>coug_controls\<close> obeys
  the mixing law of the specification with \<open>sign_r = - 1\<close>, \<open>sign_l = 1\<close> and no
  trim or offset terms: the top fin is the heading output, the right fin the negated
  depth output, the left fin the depth output. In \<open>pid_control\<close> the top fin is the
  heading output plus \<open>trim_ratio\<close> times the speed level plus the top offset,
  truncated toward zero to the integer field, where the speed level is the desired
  speed truncated to an integer.
\<close>

theorem fin_mixing:
  assumes "PIDControl.init_flag pc" and "CougControls.init_flag cc"
  shows "map (\<lambda>command. fin command ! 0) (fst (PIDControl_step pc (TimerTick now)))
           = [cpp_trunc
                (real_of_int (fst (compute (PIDControl.myHeadingPID pc)
                                     (PIDControl.desired_heading pc) (yaw pc)))
                 + trim_ratio (PIDControl.parameters pc)
                     * real_of_int (cpp_trunc (PIDControl.desired_speed pc))
                 + top_fin_offset (PIDControl.parameters pc))]
   \<and> map (spec_mixing_law (- 1) 1 0 0 0 0
             (fst (compute (CougControls.myDepthPID cc) (CougControls.desired_depth cc)
                     (- actual_depth cc)))
             (fst (compute (CougControls.myHeadingPID cc) (CougControls.desired_heading cc)
                     (actual_heading cc)))
             (CougControls.desired_speed cc))
          (fst (CougControls_step cc (TimerTick now))) = [True]"
  using assms
  by (simp add: PIDControl_tick CougControls_tick PIDControl_fins_def spec_mixing_law_def)

theorem fin_mixing_witness:
  "PIDControl.init_flag (PIDControl_init_callback PIDControl_example)
   \<and> CougControls.init_flag (CougControls_init_callback CougControls_example)
   \<and> map (\<lambda>command. fin command ! 0)
        (fst (PIDControl_step (PIDControl_init_callback PIDControl_example) (TimerTick 1)))
       = [cpp_trunc
            (real_of_int (fst (compute
                (PIDControl.myHeadingPID (PIDControl_init_callback PIDControl_example))
                (PIDControl.desired_heading (PIDControl_init_callback PIDControl_example))
                (yaw (PIDControl_init_callback PIDControl_example))))
             + trim_ratio (PIDControl.parameters (PIDControl_init_callback PIDControl_example))
                 * real_of_int (cpp_trunc
                     (PIDControl.desired_speed (PIDControl_init_callback PIDControl_example)))
             + top_fin_offset
                 (PIDControl.parameters (PIDControl_init_callback PIDControl_example)))]
   \<and> fst (CougControls_spin (CougControls_init_callback CougControls_example)
        [DesiredDepth 1, DesiredHeading 7, TimerTick 1])
       = [\<lparr>stamp = 1, fin = [7, - 2, 2], thruster = 0\<rparr>]"
proof -
  have run: "fst (CougControls_spin (CougControls_init_callback CougControls_example)
        [DesiredDepth 1, DesiredHeading 7, TimerTick 1])
       = [\<lparr>stamp = 1, fin = [7, - 2, 2], thruster = 0\<rparr>]"
    by code_simp
  show ?thesis
    using fin_mixing [OF running_examples, of 1] running_examples run
    by blast
qed

text \<open>
  The law as the specification states it fails in \<open>pid_control\<close>. With a depth output
  of 2 and neither trim nor offsets, the right and the left fin both receive \<open>2\<close>, so
  no pair of opposite signs fits; with \<open>trim_ratio = 1 / 2\<close> and a speed of 1 the top
  fin is \<open>0\<close>, not \<open>1 / 2\<close>.
\<close>

theorem fin_mixing_counterexample:
  "PIDControl_main PIDControl_example_parameters [Init, DesiredDepth 1, TimerTick 1]
     = [\<lparr>stamp = 1, fin = [0, 2, 2], thruster = 0\<rparr>]
   \<and> fst (compute (PIDControl.myDepthPID PIDControl_example) 1 (- 0)) = 2
   \<and> fst (compute (PIDControl.myHeadingPID PIDControl_example) 0 0) = 0
   \<and> \<not> spec_mixing_law (- 1) 1 0 0 0 0 2 0 0 \<lparr>stamp = 1, fin = [0, 2, 2], thruster = 0\<rparr>
   \<and> \<not> spec_mixing_law 1 (- 1) 0 0 0 0 2 0 0 \<lparr>stamp = 1, fin = [0, 2, 2], thruster = 0\<rparr>
   \<and> PIDControl_main (PIDControl_example_parameters\<lparr>trim_ratio := 1 / 2\<rparr>)
        [Init, DesiredSpeed 1, TimerTick 1]
       = [\<lparr>stamp = 1, fin = [0, 0, 0], thruster = 1\<rparr>]
   \<and> \<not> spec_mixing_law (- 1) 1 (1 / 2) 0 0 0 0 0 1
         \<lparr>stamp = 1, fin = [0, 0, 0], thruster = 1\<rparr>
   \<and> \<not> spec_mixing_law 1 (- 1) (1 / 2) 0 0 0 0 0 1
         \<lparr>stamp = 1, fin = [0, 0, 0], thruster = 1\<rparr>"
proof -
  have "PIDControl_main PIDControl_example_parameters [Init, DesiredDepth 1, TimerTick 1]
     = [\<lparr>stamp = 1, fin = [0, 2, 2], thruster = 0\<rparr>]"
    "fst (compute (PIDControl.myDepthPID PIDControl_example) 1 (- 0)) = 2"
    "fst (compute (PIDControl.myHeadingPID PIDControl_example) 0 0) = 0"
    "PIDControl_main (PIDControl_example_parameters\<lparr>trim_ratio := 1 / 2\<rparr>)
        [Init, DesiredSpeed 1, TimerTick 1]
       = [\<lparr>stamp = 1, fin = [0, 0, 0], thruster = 1\<rparr>]"
    by code_simp+
  moreover have
    "\<not> spec_mixing_law (- 1) 1 0 0 0 0 2 0 0 \<lparr>stamp = 1, fin = [0, 2, 2], thruster = 0\<rparr>"
    "\<not> spec_mixing_law 1 (- 1) 0 0 0 0 2 0 0 \<lparr>stamp = 1, fin = [0, 2, 2], thruster = 0\<rparr>"
    "\<not> spec_mixing_law (- 1) 1 (1 / 2) 0 0 0 0 0 1
         \<lparr>stamp = 1, fin = [0, 0, 0], thruster = 1\<rparr>"
    "\<not> spec_mixing_law 1 (- 1) (1 / 2) 0 0 0 0 0 1
         \<lparr>stamp = 1, fin = [0, 0, 0], thruster = 1\<rparr>"
    by (simp_all add: spec_mixing_law_def)
  ultimately show ?thesis
    by blast
qed

lemma cpp_trunc_toward_zero:
  "cpp_trunc x = (if x < 0 then - 1 else 1) * \<lfloor>\<bar>x\<bar>\<rfloor>"
  by (simp add: cpp_trunc_def ceiling_def)

lemma PIDControl_fins_whole:
  assumes "trim_ratio ps = real_of_int t \<and> top_fin_offset ps = real_of_int a
        \<and> right_fin_offset ps = real_of_int b \<and> left_fin_offset ps = real_of_int c"
  shows "PIDControl_fins ps x y z = [y + t * z + a, x + t * z + b, x + t * z + c]"
proof -
  have "real_of_int y + real_of_int t * real_of_int z + real_of_int a
          = real_of_int (y + t * z + a)"
    "real_of_int x + real_of_int t * real_of_int z + real_of_int b
          = real_of_int (x + t * z + b)"
    "real_of_int x + real_of_int t * real_of_int z + real_of_int c
          = real_of_int (x + t * z + c)"
    by simp_all
  then show ?thesis
    unfolding PIDControl_fins_def using assms by (simp only: cpp_trunc_of_int)
qed

text \<open>
  Claim C7, as amended. For fixed parameters each fin value of \<open>pid_control\<close> is the
  truncation toward zero of an affine function of the depth output, the heading
  output and the speed level, where the truncation of \<open>x\<close> is the integer part of its
  magnitude with the sign of \<open>x\<close>. So the fin differs from the affine value by less than
  one, with no clamping, and when the trim ratio and the offsets are whole numbers (as
  the defaults are) it is that affine function exactly, so that every affine
  combination of two input triples with integer weights is mapped to the same
  combination of the fin values. The fins of the published command are this function of
  the two controller outputs and the speed level of the cycle, and of nothing else.
\<close>

theorem fins_truncated_affine:
  "PIDControl_fins ps d h v
     = [cpp_trunc (real_of_int h + trim_ratio ps * real_of_int v + top_fin_offset ps),
        cpp_trunc (real_of_int d + trim_ratio ps * real_of_int v + right_fin_offset ps),
        cpp_trunc (real_of_int d + trim_ratio ps * real_of_int v + left_fin_offset ps)]
   \<and> cpp_trunc x = (if x < 0 then - 1 else 1) * \<lfloor>\<bar>x\<bar>\<rfloor>
   \<and> \<bar>real_of_int (PIDControl_fins ps d h v ! 0)
       - (real_of_int h + trim_ratio ps * real_of_int v + top_fin_offset ps)\<bar> < 1
   \<and> \<bar>real_of_int (PIDControl_fins ps d h v ! 1)
       - (real_of_int d + trim_ratio ps * real_of_int v + right_fin_offset ps)\<bar> < 1
   \<and> \<bar>real_of_int (PIDControl_fins ps d h v ! 2)
       - (real_of_int d + trim_ratio ps * real_of_int v + left_fin_offset ps)\<bar> < 1
   \<and> (trim_ratio ps = real_of_int t \<and> top_fin_offset ps = real_of_int a
        \<and> right_fin_offset ps = real_of_int b \<and> left_fin_offset ps = real_of_int c \<longrightarrow>
        PIDControl_fins ps d h v = [h + t * v + a, d + t * v + b, d + t * v + c]
        \<and> PIDControl_fins ps (k * d + (1 - k) * d') (k * h + (1 - k) * h')
             (k * v + (1 - k) * v')
            = map2 (\<lambda>x y. k * x + (1 - k) * y)
                (PIDControl_fins ps d h v) (PIDControl_fins ps d' h' v'))
   \<and> (PIDControl.init_flag pc \<longrightarrow>
        map fin (fst (PIDControl_step pc (TimerTick now)))
          = [PIDControl_fins (PIDControl.parameters pc)
               (fst (compute (PIDControl.myDepthPID pc) (PIDControl.desired_depth pc)
                       (- depth pc)))
               (fst (compute (PIDControl.myHeadingPID pc) (PIDControl.desired_heading pc)
                       (yaw pc)))
               (cpp_trunc (PIDControl.desired_speed pc))]
        \<and> map fin (fst (PIDControl_step pc (TimerTick now)))
          = [[cpp_trunc
                (real_of_int (fst (compute (PIDControl.myHeadingPID pc)
                                     (PIDControl.desired_heading pc) (yaw pc)))
                 + trim_ratio (PIDControl.parameters pc)
                     * real_of_int (cpp_trunc (PIDControl.desired_speed pc))
                 + top_fin_offset (PIDControl.parameters pc)),
              cpp_trunc
                (real_of_int (fst (compute (PIDControl.myDepthPID pc)
                                     (PIDControl.desired_depth pc) (- depth pc)))
                 + trim_ratio (PIDControl.parameters pc)
                     * real_of_int (cpp_trunc (PIDControl.desired_speed pc))
                 + right_fin_offset (PIDControl.parameters pc)),
              cpp_trunc
                (real_of_int (fst (compute (PIDControl.myDepthPID pc)
                                     (PIDControl.desired_depth pc) (- depth pc)))
                 + trim_ratio (PIDControl.parameters pc)
                     * real_of_int (cpp_trunc (PIDControl.desired_speed pc))
                 + left_fin_offset (PIDControl.parameters pc))]])"
proof (intro conjI impI)
  show "PIDControl_fins ps d h v
     = [cpp_trunc (real_of_int h + trim_ratio ps * real_of_int v + top_fin_offset ps),
        cpp_trunc (real_of_int d + trim_ratio ps * real_of_int v + right_fin_offset ps),
        cpp_trunc (real_of_int d + trim_ratio ps * real_of_int v + left_fin_offset ps)]"
    by (simp add: PIDControl_fins_def)
  show "cpp_trunc x = (if x < 0 then - 1 else 1) * \<lfloor>\<bar>x\<bar>\<rfloor>"
    by (rule cpp_trunc_toward_zero)
  show "\<bar>real_of_int (PIDControl_fins ps d h v ! 0)
       - (real_of_int h + trim_ratio ps * real_of_int v + top_fin_offset ps)\<bar> < 1"
    by (simp add: PIDControl_fins_def cpp_trunc_near)
  show "\<bar>real_of_int (PIDControl_fins ps d h v ! 1)
       - (real_of_int d + trim_ratio ps * real_of_int v + right_fin_offset ps)\<bar> < 1"
    by (simp add: PIDControl_fins_def cpp_trunc_near)
  show "\<bar>real_of_int (PIDControl_fins ps d h v ! 2)
       - (real_of_int d + trim_ratio ps * real_of_int v + left_fin_offset ps)\<bar> < 1"
    by (simp add: PIDControl_fins_def cpp_trunc_near numeral_2_eq_2)
next
  assume whole: "trim_ratio ps = real_of_int t \<and> top_fin_offset ps = real_of_int a
        \<and> right_fin_offset ps = real_of_int b \<and> left_fin_offset ps = real_of_int c"
  note exact = PIDControl_fins_whole [OF whole]
  show "PIDControl_fins ps d h v = [h + t * v + a, d + t * v + b, d + t * v + c]"
    by (rule exact)
  show "PIDControl_fins ps (k * d + (1 - k) * d') (k * h + (1 - k) * h')
             (k * v + (1 - k) * v')
            = map2 (\<lambda>x y. k * x + (1 - k) * y)
                (PIDControl_fins ps d h v) (PIDControl_fins ps d' h' v')"
    unfolding exact by (simp add: algebra_simps)
next
  assume running: "PIDControl.init_flag pc"
  then show "map fin (fst (PIDControl_step pc (TimerTick now)))
          = [PIDControl_fins (PIDControl.parameters pc)
               (fst (compute (PIDControl.myDepthPID pc) (PIDControl.desired_depth pc)
                       (- depth pc)))
               (fst (compute (PIDControl.myHeadingPID pc) (PIDControl.desired_heading pc)
                       (yaw pc)))
               (cpp_trunc (PIDControl.desired_speed pc))]"
    by (simp add: PIDControl_tick)
  from running show "map fin (fst (PIDControl_step pc (TimerTick now)))
          = [[cpp_trunc
                (real_of_int (fst (compute (PIDControl.myHeadingPID pc)
                                     (PIDControl.desired_heading pc) (yaw pc)))
                 + trim_ratio (PIDControl.parameters pc)
                     * real_of_int (cpp_trunc (PIDControl.desired_speed pc))
                 + top_fin_offset (PIDControl.parameters pc)),
              cpp_trunc
                (real_of_int (fst (compute (PIDControl.myDepthPID pc)
                                     (PIDControl.desired_depth pc) (- depth pc)))
                 + trim_ratio (PIDControl.parameters pc)
                     * real_of_int (cpp_trunc (PIDControl.desired_speed pc))
                 + right_fin_offset (PIDControl.parameters pc)),
              cpp_trunc
                (real_of_int (fst (compute (PIDControl.myDepthPID pc)
                                     (PIDControl.desired_depth pc) (- depth pc)))
                 + trim_ratio (PIDControl.parameters pc)
                     * real_of_int (cpp_trunc (PIDControl.desired_speed pc))
                 + left_fin_offset (PIDControl.parameters pc))]]"
    by (simp add: PIDControl_tick PIDControl_fins_def)
qed

theorem fins_truncated_affine_witness:
  "trim_ratio PIDControl_example_parameters = real_of_int 0
   \<and> top_fin_offset PIDControl_example_parameters = real_of_int 0
   \<and> right_fin_offset PIDControl_example_parameters = real_of_int 0
   \<and> left_fin_offset PIDControl_example_parameters = real_of_int 0
   \<and> PIDControl.init_flag (PIDControl_init_callback PIDControl_example)
   \<and> PIDControl_fins PIDControl_example_parameters 4 (- 7) 3 = [- 7, 4, 4]
   \<and> PIDControl_fins PIDControl_example_parameters (5 * 4 + (1 - 5) * 1) (5 * (- 7) + (1 - 5) * 2)
        (5 * 3 + (1 - 5) * 6)
       = map2 (\<lambda>x y. 5 * x + (1 - 5) * y)
           (PIDControl_fins PIDControl_example_parameters 4 (- 7) 3)
           (PIDControl_fins PIDControl_example_parameters 1 2 6)
   \<and> map fin (fst (PIDControl_spin (PIDControl_init_callback PIDControl_example)
        [DesiredDepth 2, DesiredHeading (- 7), TimerTick 1])) = [[- 7, 4, 4]]
   \<and> PIDControl_fins
        (PIDControl_default_parameters
           \<lparr>trim_ratio := 1 / 2, top_fin_offset := 1 / 2, left_fin_offset := 1\<rparr>)
        (- 1) (- 6) (- 1)
       = [cpp_trunc (- 6), cpp_trunc (- 3 / 2), cpp_trunc (- 1 / 2)]
   \<and> [cpp_trunc (- 6), cpp_trunc (- 3 / 2), cpp_trunc (- 1 / 2)] = [- 6, - 1, 0]
   \<and> cpp_trunc (- 3 / 2) = (if (- 3 / 2 :: real) < 0 then - 1 else 1) * \<lfloor>\<bar>- 3 / 2 :: real\<bar>\<rfloor>"
proof -
  have whole: "trim_ratio PIDControl_example_parameters = real_of_int 0
     \<and> top_fin_offset PIDControl_example_parameters = real_of_int 0
     \<and> right_fin_offset PIDControl_example_parameters = real_of_int 0
     \<and> left_fin_offset PIDControl_example_parameters = real_of_int 0"
    by (simp add: PIDControl_example_parameters_def PIDControl_default_parameters_def)
  have run: "map fin (fst (PIDControl_spin (PIDControl_init_callback PIDControl_example)
        [DesiredDepth 2, DesiredHeading (- 7), TimerTick 1])) = [[- 7, 4, 4]]"
    by code_simp
  have truncs: "[cpp_trunc (- 6), cpp_trunc (- 3 / 2), cpp_trunc (- 1 / 2)] = [- 6, - 1, 0]"
    by code_simp
  have fractional: "PIDControl_fins
        (PIDControl_default_parameters
           \<lparr>trim_ratio := 1 / 2, top_fin_offset := 1 / 2, left_fin_offset := 1\<rparr>)
        (- 1) (- 6) (- 1)
       = [cpp_trunc (- 6), cpp_trunc (- 3 / 2), cpp_trunc (- 1 / 2)]"
    using fins_truncated_affine [where ps = "PIDControl_default_parameters
           \<lparr>trim_ratio := 1 / 2, top_fin_offset := 1 / 2, left_fin_offset := 1\<rparr>"
        and d = "- 1" and h = "- 6" and v = "- 1" and x = 0
        and pc = PIDControl_example and now = 0 and k = 0 and d' = 0 and h' = 0 and v' = 0
        and t = 0 and a = 0 and b = 0 and c = 0]
    by (simp add: PIDControl_default_parameters_def)
  note whole_instance = fins_truncated_affine [where ps = PIDControl_example_parameters
        and d = 4 and h = "- 7" and v = 3 and x = "- 3 / 2"
        and t = 0 and a = 0 and b = 0 and c = 0 and k = 5 and d' = 1 and h' = 2 and v' = 6
        and pc = "PIDControl_init_callback PIDControl_example" and now = 1]
  have exact: "PIDControl_fins PIDControl_example_parameters 4 (- 7) 3
      = [- 7 + 0 * 3 + 0, 4 + 0 * 3 + 0, 4 + 0 * 3 + 0]"
    using whole_instance whole by blast
  have combination:
    "PIDControl_fins PIDControl_example_parameters (5 * 4 + (1 - 5) * 1)
        (5 * (- 7) + (1 - 5) * 2) (5 * 3 + (1 - 5) * 6)
       = map2 (\<lambda>x y. 5 * x + (1 - 5) * y)
           (PIDControl_fins PIDControl_example_parameters 4 (- 7) 3)
           (PIDControl_fins PIDControl_example_parameters 1 2 6)"
    using whole_instance whole by blast
  have toward_zero:
    "cpp_trunc (- 3 / 2) = (if (- 3 / 2 :: real) < 0 then - 1 else 1) * \<lfloor>\<bar>- 3 / 2 :: real\<bar>\<rfloor>"
    using whole_instance by blast
  show ?thesis
    using whole running_examples(1) run truncs fractional exact combination toward_zero
    by simp
qed

text \<open>
  Without the restriction to whole parameters the fin values are not affine: with
  \<open>trim_ratio = 1 / 2\<close> the top fin is 0, 0 and 1 at speed levels 0, 1 and 2, and the
  affine combination with weights 2 and \<open>- 1\<close> of the first two triples is not mapped to
  the combination of their fin values.
\<close>

theorem fins_not_affine_counterexample:
  "PIDControl_fins (PIDControl_default_parameters\<lparr>trim_ratio := 1 / 2\<rparr>) 0 0 0 ! 0 = 0
   \<and> PIDControl_fins (PIDControl_default_parameters\<lparr>trim_ratio := 1 / 2\<rparr>) 0 0 1 ! 0 = 0
   \<and> PIDControl_fins (PIDControl_default_parameters\<lparr>trim_ratio := 1 / 2\<rparr>) 0 0 2 ! 0 = 1
   \<and> PIDControl_fins (PIDControl_default_parameters\<lparr>trim_ratio := 1 / 2\<rparr>)
        (2 * 0 + (1 - 2) * 0) (2 * 0 + (1 - 2) * 0) (2 * 1 + (1 - 2) * 0) ! 0
       \<noteq> 2 * (PIDControl_fins (PIDControl_default_parameters\<lparr>trim_ratio := 1 / 2\<rparr>) 0 0 1 ! 0)
          + (1 - 2)
            * (PIDControl_fins (PIDControl_default_parameters\<lparr>trim_ratio := 1 / 2\<rparr>) 0 0 0 ! 0)"
  by (simp add: PIDControl_fins_def PIDControl_default_parameters_def cpp_trunc_def)

section \<open>Properties of the inputs of the cycle\<close>

text \<open>
  Claim C5. The depth callback stores the received position as it is, and every running
  cycle negates the stored value when it passes it to the depth controller: after a
  depth message \<open>z\<close>, the next tick calls \<open>compute\<close> of the depth controller with
  actual value \<open>- z\<close>, and the depth fins carry the output of that call. This holds
  for both nodes.
\<close>

theorem depth_sign_inverted:
  assumes "PIDControl.init_flag pc" and "CougControls.init_flag cc"
  shows "depth (snd (PIDControl_step pc (DepthData z))) = z
   \<and> PIDControl.myDepthPID (snd (PIDControl_spin pc [DepthData z, TimerTick now]))
       = snd (compute (PIDControl.myDepthPID pc) (PIDControl.desired_depth pc) (- z))
   \<and> map fin (fst (PIDControl_spin pc [DepthData z, TimerTick now]))
       = [PIDControl_fins (PIDControl.parameters pc)
            (fst (compute (PIDControl.myDepthPID pc) (PIDControl.desired_depth pc) (- z)))
            (fst (compute (PIDControl.myHeadingPID pc) (PIDControl.desired_heading pc) (yaw pc)))
            (cpp_trunc (PIDControl.desired_speed pc))]
   \<and> PIDControl.myDepthPID (snd (PIDControl_step pc (TimerTick now)))
       = snd (compute (PIDControl.myDepthPID pc) (PIDControl.desired_depth pc) (- depth pc))
   \<and> actual_depth (snd (CougControls_step cc (DepthData z))) = z
   \<and> CougControls.myDepthPID (snd (CougControls_spin cc [DepthData z, TimerTick now]))
       = snd (compute (CougControls.myDepthPID cc) (CougControls.desired_depth cc) (- z))
   \<and> map fin (fst (CougControls_spin cc [DepthData z, TimerTick now]))
       = [[fst (compute (CougControls.myHeadingPID cc) (CougControls.desired_heading cc)
                  (actual_heading cc)),
           - fst (compute (CougControls.myDepthPID cc) (CougControls.desired_depth cc) (- z)),
           fst (compute (CougControls.myDepthPID cc) (CougControls.desired_depth cc) (- z))]]
   \<and> CougControls.myDepthPID (snd (CougControls_step cc (TimerTick now)))
       = snd (compute (CougControls.myDepthPID cc) (CougControls.desired_depth cc)
                (- actual_depth cc))"
  using assms
  by (simp add: PIDControl_tick CougControls_tick PIDControl_depth_callback_def
        CougControls_actual_depth_callback_def)

theorem depth_sign_inverted_witness:
  "PIDControl.init_flag (PIDControl_init_callback PIDControl_example)
   \<and> CougControls.init_flag (CougControls_init_callback CougControls_example)
   \<and> depth (snd (PIDControl_step (PIDControl_init_callback PIDControl_example) (DepthData 3)))
       = 3
   \<and> actual_depth (snd (CougControls_step (CougControls_init_callback CougControls_example)
        (DepthData 3))) = 3
   \<and> fst (compute (PIDControl.myDepthPID PIDControl_example) 0 (- 3)) = 6
   \<and> fst (PIDControl_spin (PIDControl_init_callback PIDControl_example)
        [DepthData 3, TimerTick 1]) = [\<lparr>stamp = 1, fin = [0, 6, 6], thruster = 0\<rparr>]
   \<and> fst (CougControls_spin (CougControls_init_callback CougControls_example)
        [DepthData 3, TimerTick 1]) = [\<lparr>stamp = 1, fin = [0, - 6, 6], thruster = 0\<rparr>]"
proof -
  have run: "fst (compute (PIDControl.myDepthPID PIDControl_example) 0 (- 3)) = 6"
    "fst (PIDControl_spin (PIDControl_init_callback PIDControl_example)
        [DepthData 3, TimerTick 1]) = [\<lparr>stamp = 1, fin = [0, 6, 6], thruster = 0\<rparr>]"
    "fst (CougControls_spin (CougControls_init_callback CougControls_example)
        [DepthData 3, TimerTick 1]) = [\<lparr>stamp = 1, fin = [0, - 6, 6], thruster = 0\<rparr>]"
    by code_simp+
  show ?thesis
    using depth_sign_inverted [OF running_examples, of 3 1] running_examples run
    by blast
qed

text \<open>
  The node \<open>coug_controls\<close> scales the transmitted yaw: every modem status message sets
  the actual heading to one tenth of the transmitted yaw plus the magnetic declination;
  the declination is the configured parameter and no callback changes it; the next
  running cycle passes that heading to the heading controller.
\<close>

lemma actual_heading_scaled:
  "actual_heading (snd (CougControls_step cc (ModemStatusMsg m)))
     = 1 / 10 * real_of_int (sint (ModemStatus.attitude_yaw m))
       + CougControls.magnetic_declination cc
   \<and> (CougControls_new qs = Inr cc0 \<longrightarrow>
        CougControls.magnetic_declination cc0 = CougControls_parameters.magnetic_declination qs)
   \<and> CougControls.magnetic_declination (snd (CougControls_spin cc es))
       = CougControls.magnetic_declination cc
   \<and> (CougControls.init_flag cc \<longrightarrow>
        CougControls.myHeadingPID (snd (CougControls_spin cc [ModemStatusMsg m, TimerTick now]))
          = snd (compute (CougControls.myHeadingPID cc) (CougControls.desired_heading cc)
                   (1 / 10 * real_of_int (sint (ModemStatus.attitude_yaw m))
                      + CougControls.magnetic_declination cc)))"
  using CougControls_new_Inr [of qs cc0] CougControls_spin_declination [of cc es]
  by (simp add: CougControls_actual_heading_callback_def CougControls_tick)

text \<open>
  Claim C6. The claim asks that the heading fed to the heading controller be one tenth
  of the transmitted yaw plus the declination. The node \<open>pid_control\<close> does not do
  this: for a status message with a transmitted yaw of 10 (one degree by the message
  file's own note, "Divide by 10 for local yaw in degrees") it stores 10, not 1. With a
  desired heading of one degree the next cycle therefore sees an error of \<open>- 9\<close> and
  commands the top fin to \<open>- 9\<close>, where \<open>coug_controls\<close>, with the declination set to
  zero, sees no error and commands \<open>0\<close> on the same inputs.
\<close>

theorem yaw_stored_unscaled:
  "yaw (snd (PIDControl_step PIDControl_example
          (ModemRecMsg \<lparr>msg_id = 0x10, ModemRec.attitude_yaw = 10\<rparr>))) = 10
   \<and> 1 / 10 * real_of_int (sint (10 :: 16 word)) = 1
   \<and> PIDControl_main PIDControl_example_parameters
        [Init, DesiredHeading 1, ModemRecMsg \<lparr>msg_id = 0x10, ModemRec.attitude_yaw = 10\<rparr>,
         TimerTick 1]
       = [\<lparr>stamp = 1, fin = [- 9, 0, 0], thruster = 0\<rparr>]
   \<and> CougControls_main (CougControls_example_parameters
          \<lparr>CougControls_parameters.magnetic_declination := 0\<rparr>)
        [Init, DesiredHeading 1,
         ModemStatusMsg \<lparr>includes_local_attitude = True, attitude_yaw = 10,
           attitude_pitch = 0, attitude_roll = 0\<rparr>,
         TimerTick 1]
       = [\<lparr>stamp = 1, fin = [0, 0, 0], thruster = 0\<rparr>]"
proof -
  have "yaw (snd (PIDControl_step PIDControl_example
          (ModemRecMsg \<lparr>msg_id = 0x10, ModemRec.attitude_yaw = 10\<rparr>))) = 10"
    "1 / 10 * real_of_int (sint (10 :: 16 word)) = 1"
    by (simp_all add: PIDControl_yaw_callback_def)
  moreover have "PIDControl_main PIDControl_example_parameters
        [Init, DesiredHeading 1, ModemRecMsg \<lparr>msg_id = 0x10, ModemRec.attitude_yaw = 10\<rparr>,
         TimerTick 1]
       = [\<lparr>stamp = 1, fin = [- 9, 0, 0], thruster = 0\<rparr>]"
    "CougControls_main (CougControls_example_parameters
          \<lparr>CougControls_parameters.magnetic_declination := 0\<rparr>)
        [Init, DesiredHeading 1,
         ModemStatusMsg \<lparr>includes_local_attitude = True, attitude_yaw = 10,
           attitude_pitch = 0, attitude_roll = 0\<rparr>,
         TimerTick 1]
       = [\<lparr>stamp = 1, fin = [0, 0, 0], thruster = 0\<rparr>]"
    by code_simp+
  ultimately show ?thesis
    by blast
qed



text \<open>
  Claim C10. In \<open>pid_control\<close>, a modem message whose \<open>msg_id\<close> is not \<open>0x10\<close>
  leaves the whole node unchanged and publishes nothing; one whose \<open>msg_id\<close> is
  \<open>0x10\<close> changes the stored yaw and nothing else; and no other callback changes the
  stored yaw.
\<close>

theorem yaw_callback_status_only:
  "(msg_id m \<noteq> 0x10 \<longrightarrow> PIDControl_step pc (ModemRecMsg m) = ([], pc))
   \<and> (msg_id m = 0x10 \<longrightarrow>
        PIDControl_step pc (ModemRecMsg m)
          = ([], pc\<lparr>yaw := real_of_int (sint (ModemRec.attitude_yaw m))\<rparr>))
   \<and> (yaw (snd (PIDControl_step pc e)) \<noteq> yaw pc \<longrightarrow>
        (\<exists>r. e = ModemRecMsg r \<and> msg_id r = 0x10))"
  by (cases e)
     (simp_all add: PIDControl_yaw_callback_def PIDControl_init_callback_def
        PIDControl_desired_depth_callback_def PIDControl_desired_heading_callback_def
        PIDControl_desired_speed_callback_def PIDControl_depth_callback_def PIDControl_tick)

theorem yaw_callback_status_only_witness:
  "msg_id \<lparr>msg_id = 0x11, ModemRec.attitude_yaw = 450\<rparr> \<noteq> 0x10
   \<and> PIDControl_step PIDControl_example
        (ModemRecMsg \<lparr>msg_id = 0x11, ModemRec.attitude_yaw = 450\<rparr>) = ([], PIDControl_example)
   \<and> msg_id \<lparr>msg_id = 0x10, ModemRec.attitude_yaw = 450\<rparr> = 0x10
   \<and> PIDControl_step PIDControl_example
        (ModemRecMsg \<lparr>msg_id = 0x10, ModemRec.attitude_yaw = 450\<rparr>)
       = ([], PIDControl_example\<lparr>yaw := 450\<rparr>)
   \<and> yaw (snd (PIDControl_step PIDControl_example
        (ModemRecMsg \<lparr>msg_id = 0x10, ModemRec.attitude_yaw = 450\<rparr>)))
       \<noteq> yaw PIDControl_example"
proof -
  have "yaw PIDControl_example = 0"
    by (simp add: PIDControl_example_def)
  then show ?thesis
    using yaw_callback_status_only
          [of "\<lparr>msg_id = 0x11, ModemRec.attitude_yaw = 450\<rparr>" PIDControl_example Init]
        yaw_callback_status_only
          [of "\<lparr>msg_id = 0x10, ModemRec.attitude_yaw = 450\<rparr>" PIDControl_example
              "ModemRecMsg \<lparr>msg_id = 0x10, ModemRec.attitude_yaw = 450\<rparr>"]
    by simp
qed

section \<open>Configuration errors\<close>

text \<open>
  Claim C8. When the timer period is not positive, or the minimum output of an axis
  exceeds its maximum, the first offending \<open>calibrate\<close> call rejects the configuration,
  the constructor does not return a node, and the process publishes no command,
  whatever arrives afterwards.
\<close>

theorem misconfiguration_halts:
  assumes "pid_timer_period ps \<le> 0
           \<or> PIDControl_parameters.depth_max_output ps < PIDControl_parameters.depth_min_output ps
           \<or> PIDControl_parameters.heading_max_output ps
                < PIDControl_parameters.heading_min_output ps
           \<or> speed_max_output ps < speed_min_output ps"
    and "timer_period qs \<le> 0
           \<or> CougControls_parameters.depth_max_output qs
                < CougControls_parameters.depth_min_output qs
           \<or> CougControls_parameters.heading_max_output qs
                < CougControls_parameters.heading_min_output qs"
  shows "PIDControl_new ps = Inl ConfigurationError \<and> PIDControl_main ps es = []
         \<and> CougControls_new qs = Inl ConfigurationError \<and> CougControls_main qs es = []"
  using PIDControl_new_Inl [OF assms(1)] CougControls_new_Inl [OF assms(2)]
  by (simp add: PIDControl_main_def CougControls_main_def)

theorem misconfiguration_halts_witness:
  "pid_timer_period (PIDControl_example_parameters\<lparr>pid_timer_period := 0\<rparr>) \<le> 0
   \<and> CougControls_parameters.depth_max_output
        (CougControls_example_parameters\<lparr>CougControls_parameters.depth_min_output := 101\<rparr>)
       < CougControls_parameters.depth_min_output
        (CougControls_example_parameters\<lparr>CougControls_parameters.depth_min_output := 101\<rparr>)
   \<and> PIDControl_main (PIDControl_example_parameters\<lparr>pid_timer_period := 0\<rparr>)
        [Init, DesiredDepth 1, TimerTick 1, TimerTick 2] = []
   \<and> CougControls_main
        (CougControls_example_parameters\<lparr>CougControls_parameters.depth_min_output := 101\<rparr>)
        [Init, DesiredDepth 1, TimerTick 1, TimerTick 2] = []"
proof -
  have p: "pid_timer_period (PIDControl_example_parameters\<lparr>pid_timer_period := 0\<rparr>) \<le> 0"
    by simp
  have q: "CougControls_parameters.depth_max_output
        (CougControls_example_parameters\<lparr>CougControls_parameters.depth_min_output := 101\<rparr>)
       < CougControls_parameters.depth_min_output
        (CougControls_example_parameters\<lparr>CougControls_parameters.depth_min_output := 101\<rparr>)"
    by (simp add: CougControls_example_parameters_def CougControls_default_parameters_def)
  show ?thesis
    using misconfiguration_halts [of "PIDControl_example_parameters\<lparr>pid_timer_period := 0\<rparr>"
        "CougControls_example_parameters\<lparr>CougControls_parameters.depth_min_output := 101\<rparr>"
        "[Init, DesiredDepth 1, TimerTick 1, TimerTick 2]"] p q
    by blast
qed

end
